theory Spec2Isabelle
  imports Complex_Main
begin

section \<open>JavaScript values as the event handler sees them\<close>

text \<open>
  The handler works on untyped values: the request body that \<open>express.json()\<close> produced,
  the document that \<open>JSON.parse\<close> returned, and \<open>undefined\<close> wherever a property is
  missing. A number is the exact value of its double; the handler only tests numbers for
  truthiness. A string is the byte sequence of its UTF-8 encoding. An object is the list of
  its own properties (\<open>JSON.parse\<close> keeps one entry per key).
\<close>

datatype jsval =
    VUndefined
  | VNull
  | VBool bool
  | VNum rat
  | VStr string
  | VArr "jsval list"
  | VObj "(string \<times> jsval) list"

text \<open>What a \<open>throw\<close> carries: an \<open>Error\<close> with its message, or any other value.\<close>

datatype thrown = JsError string | JsOther jsval

fun nullish :: "jsval \<Rightarrow> bool" where
  "nullish VUndefined = True"
| "nullish VNull = True"
| "nullish _ = False"

text \<open>JavaScript truthiness, as \<open>if (x)\<close>, \<open>!x\<close>, \<open>x && y\<close> and \<open>x || y\<close> test it.\<close>

fun truthy :: "jsval \<Rightarrow> bool" where
  "truthy VUndefined = False"
| "truthy VNull = False"
| "truthy (VBool b) = b"
| "truthy (VNum n) = (n \<noteq> 0)"
| "truthy (VStr s) = (s \<noteq> [])"
| "truthy (VArr _) = True"
| "truthy (VObj _) = True"

text \<open>
  Reading a named property of a value that is neither \<open>null\<close> nor \<open>undefined\<close>. The names
  the sources read (\<open>message\<close>, \<open>data\<close>, \<open>resource\<close>, \<open>typeId\<close>, \<open>productProjection\<close>, \<open>id\<close>,
  \<open>masterVariant\<close>, \<open>images\<close>, \<open>url\<close>, \<open>attributes\<close>, \<open>name\<close>, \<open>value\<close>, \<open>version\<close>) are
  properties of no prototype, so only an object can have them.
\<close>

fun own :: "jsval \<Rightarrow> string \<Rightarrow> jsval" where
  "own (VObj kvs) k = (case map_of kvs k of None \<Rightarrow> VUndefined | Some v \<Rightarrow> v)"
| "own _ k = VUndefined"

definition cannot_read :: "jsval \<Rightarrow> string \<Rightarrow> thrown" where
  "cannot_read v k =
     JsError (''Cannot read properties of '' @ (if v = VNull then ''null'' else ''undefined'')
              @ '' (reading '' @ [CHR 0x27] @ k @ [CHR 0x27] @ '')'')"

text \<open>\<open>v.k\<close>: a TypeError on \<open>null\<close> and \<open>undefined\<close>.\<close>

definition member :: "jsval \<Rightarrow> string \<Rightarrow> thrown + jsval" where
  "member v k = (if nullish v then Inl (cannot_read v k) else Inr (own v k))"

text \<open>\<open>v?.k\<close>: \<open>undefined\<close> on \<open>null\<close> and \<open>undefined\<close>.\<close>

definition opt_member :: "jsval \<Rightarrow> string \<Rightarrow> jsval" where
  "opt_member v k = (if nullish v then VUndefined else own v k)"

text \<open>\<open>v?.[0]\<close>: the first element of an array, the first character of a string, the
  property \<open>0\<close> of an object.\<close>

fun opt_index0 :: "jsval \<Rightarrow> jsval" where
  "opt_index0 (VArr xs) = (case xs of [] \<Rightarrow> VUndefined | x # _ \<Rightarrow> x)"
| "opt_index0 (VStr s) = (case s of [] \<Rightarrow> VUndefined | c # _ \<Rightarrow> VStr [c])"
| "opt_index0 (VObj kvs) = own (VObj kvs) ''0''"
| "opt_index0 _ = VUndefined"

section \<open>Responses, collaborators and the trace of a request\<close>

text \<open>The \<open>ImageData\<close> interface: what image analysis hands to text generation.\<close>

record image_data =
  labels :: string
  objects :: string
  colors :: "string list"
  detectedText :: string
  webEntities :: string

text \<open>The SDK's \<open>ClientResponse\<close>; the handler reads its \<open>body\<close>.\<close>

record client_response =
  body :: jsval

datatype field = Text string | Value jsval | Analysis image_data

text \<open>\<open>response.status(n).send(obj)\<close>: the status and the object sent, key by key.\<close>

record http_response =
  status :: nat
  send :: "(string \<times> field) list"

datatype level = Info | Err

text \<open>What a request does besides answering: log entries (level, message, attached
  values) and the calls of the three collaborators, in the order they happen.\<close>

datatype event =
    Log level string "(string \<times> jsval) list"
  | Call_productAnalysis jsval
  | Call_generateProductDescription image_data
  | Call_updateProductDescription jsval string

record outcome =
  response :: "http_response option"
  trace :: "event list"

fun is_call :: "event \<Rightarrow> bool" where
  "is_call (Log _ _ _) = False"
| "is_call _ = True"

definition collaborator_calls :: "outcome \<Rightarrow> event list" where
  "collaborator_calls out = filter is_call (trace out)"

text \<open>
  What the handler imports and the runtime gives it: \<open>Buffer.from(x, 'base64').toString()\<close>,
  \<open>String.prototype.trim\<close>, \<open>JSON.parse\<close> (\<open>Inl\<close> carries the SyntaxError's message),
  the conversion \<open>String(x)\<close>, and the three collaborators, each returning or throwing.
\<close>

record env =
  Buffer_from_base64 :: "jsval \<Rightarrow> thrown + string"
  trim :: "string \<Rightarrow> string"
  JSON_parse :: "string \<Rightarrow> string + jsval"
  String_of :: "jsval \<Rightarrow> string"
  productAnalysis :: "jsval \<Rightarrow> thrown + image_data"
  generateProductDescription :: "image_data \<Rightarrow> thrown + string"
  updateProductDescription :: "jsval \<Rightarrow> string \<Rightarrow> thrown + client_response"

section \<open>The event controller\<close>

definition check_mark :: string where
  "check_mark = [CHR 0xE2, CHR 0x9C, CHR 0x85]"

definition cross_mark :: string where
  "cross_mark = [CHR 0xE2, CHR 0x9D, CHR 0x8C]"

definition hourglass :: string where
  "hourglass = [CHR 0xE2, CHR 0x8C, CHR 0x9B]"

definition no_data_message :: string where
  "no_data_message = cross_mark @ '' No data found in Pub/Sub message.''"

definition not_enabled_message :: string where
  "not_enabled_message =
     cross_mark @ '' The option for automatic description generation is not enabled.''"

definition internal_error_message :: string where
  "internal_error_message = cross_mark @ '' Internal server error. Failed to process request.''"

definition unexpected_error_message :: string where
  "unexpected_error_message = cross_mark @ '' Unexpected error occurred.''"

text \<open>The \<open>catch\<close> block: \<open>t\<close> is the trace up to the throw.\<close>

fun catch_block :: "event list \<Rightarrow> thrown \<Rightarrow> outcome" where
  "catch_block t (JsError m) =
     \<lparr>response = Some \<lparr>status = 500,
                         send = [(''error'', Text internal_error_message), (''details'', Text m)]\<rparr>,
      trace = t @ [Log Err (cross_mark @ '' Error processing request'') [(''error'', VStr m)]]\<rparr>"
| "catch_block t (JsOther v) =
     \<lparr>response = Some \<lparr>status = 500, send = [(''error'', Text unexpected_error_message)]\<rparr>,
      trace = t @ [Log Err (cross_mark @ '' Unexpected error'') [(''error'', v)]]\<rparr>"

text \<open>\<open>request.body.message\<close>, then \<open>pubSubMessage.data ? Buffer.from(pubSubMessage.data,
  'base64').toString().trim() : undefined\<close>; \<open>None\<close> is \<open>undefined\<close>.\<close>

definition decodedData :: "env \<Rightarrow> jsval \<Rightarrow> thrown + string option" where
  "decodedData e request_body =
     (case member request_body ''message'' of
        Inl err \<Rightarrow> Inl err
      | Inr pubSubMessage \<Rightarrow>
          (case member pubSubMessage ''data'' of
             Inl err \<Rightarrow> Inl err
           | Inr d \<Rightarrow>
               if truthy d
               then (case Buffer_from_base64 e d of
                       Inl err \<Rightarrow> Inl err
                     | Inr s \<Rightarrow> Inr (Some (trim e s)))
               else Inr None))"

text \<open>\<open>jsonData.productProjection?.id\<close> and
  \<open>jsonData.productProjection?.masterVariant?.images?.[0]?.url\<close>, for a \<open>jsonData\<close> that is
  neither \<open>null\<close> nor \<open>undefined\<close>.\<close>

definition productId_of :: "jsval \<Rightarrow> jsval" where
  "productId_of jsonData = opt_member (own jsonData ''productProjection'') ''id''"

definition masterVariant_of :: "jsval \<Rightarrow> jsval" where
  "masterVariant_of jsonData = opt_member (own jsonData ''productProjection'') ''masterVariant''"

definition imageUrl_of :: "jsval \<Rightarrow> jsval" where
  "imageUrl_of jsonData =
     opt_member (opt_index0 (opt_member (masterVariant_of jsonData) ''images'')) ''url''"

text \<open>\<open>jsonData.productProjection?.masterVariant?.attributes || []\<close>.\<close>

definition attributes_of :: "jsval \<Rightarrow> jsval" where
  "attributes_of jsonData =
     (let a = opt_member (masterVariant_of jsonData) ''attributes''
      in if truthy a then a else VArr [])"

text \<open>\<open>Array.prototype.find\<close> with the callback \<open>attr => attr.name === key\<close>: the callback
  throws on an entry that is \<open>null\<close>.\<close>

fun find_by_name :: "string \<Rightarrow> jsval list \<Rightarrow> thrown + jsval" where
  "find_by_name key [] = Inr VUndefined"
| "find_by_name key (attr # rest) =
     (if nullish attr then Inl (cannot_read attr ''name'')
      else if own attr ''name'' = VStr key then Inr attr
      else find_by_name key rest)"

text \<open>\<open>attributes.find(...)\<close> then \<open>genDescriptionAttr?.value\<close>; a truthy \<open>attributes\<close>
  that is no array has no \<open>find\<close>.\<close>

definition genDescriptionValue :: "string \<Rightarrow> jsval \<Rightarrow> thrown + jsval" where
  "genDescriptionValue key jsonData =
     (case attributes_of jsonData of
        VArr attrs \<Rightarrow>
          (case find_by_name key attrs of
             Inl err \<Rightarrow> Inl err
           | Inr genDescriptionAttr \<Rightarrow> Inr (opt_member genDescriptionAttr ''value''))
      | _ \<Rightarrow> Inl (JsError ''attributes.find is not a function''))"

text \<open>The three awaited calls and the success response; \<open>t\<close> is the trace so far.\<close>

definition pipeline :: "env \<Rightarrow> event list \<Rightarrow> jsval \<Rightarrow> jsval \<Rightarrow> outcome" where
  "pipeline e t productId imageUrl =
     (let t1 = t @ [Log Info (check_mark @ '' Sending product image to Vision AI.'') [],
                    Call_productAnalysis imageUrl]
      in case productAnalysis e imageUrl of
           Inl err \<Rightarrow> catch_block t1 err
         | Inr imageData \<Rightarrow>
     (let t2 = t1 @ [Log Info (check_mark @ '' Sending image data to Generative AI.'') [],
                     Call_generateProductDescription imageData]
      in case generateProductDescription e imageData of
           Inl err \<Rightarrow> catch_block t2 err
         | Inr description \<Rightarrow>
     (let t3 = t2 @ [Log Info (check_mark @ '' Sending image description to Commerce Tools.'') [],
                     Call_updateProductDescription productId description]
      in case updateProductDescription e productId description of
           Inl err \<Rightarrow> catch_block t3 err
         | Inr updateResponse \<Rightarrow>
             \<lparr>response = Some \<lparr>status = 200,
                                 send = [(''productId'', Value productId),
                                         (''imageUrl'', Value imageUrl),
                                         (''description'', Text description),
                                         (''productAnalysis'', Analysis imageData),
                                         (''commerceToolsUpdate'', Value (body updateResponse))]\<rparr>,
              trace = t3 @ [Log Info (check_mark @ '' Process completed successfully.'') [],
                            Log Info (hourglass @ '' Waiting for next event message.'') []]\<rparr>)))"

text \<open>From the extraction of product id and image URL to the end of the \<open>try\<close> block;
  \<open>t\<close> is what the resource check logged.\<close>

definition enrich :: "env \<Rightarrow> event list \<Rightarrow> jsval \<Rightarrow> outcome" where
  "enrich e t jsonData =
     (let productId = productId_of jsonData;
          imageUrl = imageUrl_of jsonData
      in if truthy productId \<and> truthy imageUrl
         then (case genDescriptionValue ''generateDescription'' jsonData of
                 Inl err \<Rightarrow> catch_block t err
               | Inr flag \<Rightarrow>
                   if flag \<noteq> VStr ''true''
                   then \<lparr>response = Some \<lparr>status = 200,
                                            send = [(''message'', Text not_enabled_message),
                                                    (''productId'', Value productId),
                                                    (''imageUrl'', Value imageUrl)]\<rparr>,
                         trace = t @ [Log Info not_enabled_message
                                        [(''productId'', productId), (''imageUrl'', imageUrl)]]\<rparr>
                   else pipeline e t productId imageUrl)
         else \<lparr>response = None, trace = t\<rparr>)"

text \<open>The handler after \<open>JSON.parse\<close> returned \<open>jsonData\<close>: the resource check, which only
  logs, then the rest.\<close>

definition process_event :: "env \<Rightarrow> jsval \<Rightarrow> outcome" where
  "process_event e jsonData =
     (case member jsonData ''resource'' of
        Inl err \<Rightarrow> catch_block [] err
      | Inr resource \<Rightarrow>
          enrich e (if opt_member resource ''typeId'' = VStr ''product''
                    then [Log Info (check_mark @ '' Event message received.'') [],
                          Log Info (check_mark @ '' Processing event message.'') []]
                    else []) jsonData)"

text \<open>\<open>post\<close> of the event controller, on \<open>request.body\<close>. A \<open>response\<close> of \<open>None\<close> means
  the handler returned without sending anything.\<close>

definition post :: "env \<Rightarrow> jsval \<Rightarrow> outcome" where
  "post e request_body =
     (case decodedData e request_body of
        Inl err \<Rightarrow> catch_block [] err
      | Inr None \<Rightarrow>
          \<lparr>response = Some \<lparr>status = 400, send = [(''error'', Text no_data_message)]\<rparr>,
           trace = [Log Err no_data_message []]\<rparr>
      | Inr (Some decoded) \<Rightarrow>
          if decoded = []
          then \<lparr>response = Some \<lparr>status = 400, send = [(''error'', Text no_data_message)]\<rparr>,
                trace = [Log Err no_data_message []]\<rparr>
          else (case JSON_parse e decoded of
                  Inl msg \<Rightarrow> catch_block [] (JsError msg)
                | Inr jsonData \<Rightarrow> process_event e jsonData))"

section \<open>The single-file variant of the handler\<close>

text \<open>
  A second \<open>post\<close> lives in one file with its collaborators (\<open>getImageData\<close>,
  \<open>generateEnhancedDescription\<close> and its own copy of \<open>updateProductDescription\<close>, which
  the three collaborator fields of the environment stand for here). It answers through
  \<open>response.json\<close>, reads the flag \<open>gen-description\<close>, has no resource check, and rejects
  an event without product id or image. A log entry carries the values its template
  interpolates.
\<close>

fun catch_block_standalone :: "env \<Rightarrow> event list \<Rightarrow> thrown \<Rightarrow> outcome" where
  "catch_block_standalone e t (JsError m) =
     \<lparr>response = Some \<lparr>status = 500,
                         send = [(''error'', Text ''Internal server error. Failed to process request.''),
                                 (''details'', Text m)]\<rparr>,
      trace = t @ [Log Err ''Error processing request'' [(''error'', VStr m)]]\<rparr>"
| "catch_block_standalone e t (JsOther v) =
     \<lparr>response = Some \<lparr>status = 500,
                         send = [(''error'', Text ''Internal server error.''),
                                 (''details'', Text ''Unknown error occurred'')]\<rparr>,
      trace = t @ [Log Err ''Unknown error occurred'' [(''error'', VStr (String_of e v))]]\<rparr>"

definition pipeline_standalone :: "env \<Rightarrow> event list \<Rightarrow> jsval \<Rightarrow> jsval \<Rightarrow> outcome" where
  "pipeline_standalone e t productId imageUrl =
     (let t1 = t @ [Call_productAnalysis imageUrl]
      in case productAnalysis e imageUrl of
           Inl err \<Rightarrow> catch_block_standalone e t1 err
         | Inr imageData \<Rightarrow>
     (let t2 = t1 @ [Call_generateProductDescription imageData]
      in case generateProductDescription e imageData of
           Inl err \<Rightarrow> catch_block_standalone e t2 err
         | Inr description \<Rightarrow>
     (let t3 = t2 @ [Log Info ''Product Description: '' [(''description'', VStr description)],
                     Call_updateProductDescription productId description]
      in case updateProductDescription e productId description of
           Inl err \<Rightarrow> catch_block_standalone e t3 err
         | Inr updateResponse \<Rightarrow>
             \<lparr>response = Some \<lparr>status = 200,
                                 send = [(''productId'', Value productId),
                                         (''imageUrl'', Value imageUrl),
                                         (''description'', Text description),
                                         (''imageAnalysis'', Analysis imageData),
                                         (''commerceToolsUpdate'', Value (body updateResponse))]\<rparr>,
              trace = t3 @ [Log Info ''Product description updated successfully: ''
                              [(''body'', body updateResponse)]]\<rparr>)))"

definition process_event_standalone :: "env \<Rightarrow> jsval \<Rightarrow> outcome" where
  "process_event_standalone e jsonData =
     (case member jsonData ''productProjection'' of
        Inl err \<Rightarrow> catch_block_standalone e [] err
      | Inr _ \<Rightarrow>
     (let productId = productId_of jsonData;
          imageUrl = imageUrl_of jsonData
      in if \<not> truthy productId \<or> \<not> truthy imageUrl
         then \<lparr>response = Some \<lparr>status = 400,
                                  send = [(''error'', Text ''productId or imageUrl is missing'')]\<rparr>,
               trace = [Log Err ''productId or imageUrl is missing from the Pub/Sub message data.'' []]\<rparr>
         else
     (let t = [Log Info ''Processing product ID: '' [(''productId'', productId)],
               Log Info ''Product image URL: '' [(''imageUrl'', imageUrl)]]
      in case genDescriptionValue ''gen-description'' jsonData of
           Inl err \<Rightarrow> catch_block_standalone e t err
         | Inr flag \<Rightarrow>
             if flag \<noteq> VStr ''true''
             then \<lparr>response = Some \<lparr>status = 200,
                                      send = [(''message'', Text ''The option for automatic description generation is not enabled.''),
                                              (''productId'', Value productId),
                                              (''imageUrl'', Value imageUrl)]\<rparr>,
                   trace = t @ [Log Info ''The option for automatic description generation is not enabled.'' []]\<rparr>
             else pipeline_standalone e t productId imageUrl)))"

definition post_standalone :: "env \<Rightarrow> jsval \<Rightarrow> outcome" where
  "post_standalone e request_body =
     (case member request_body ''message'' of
        Inl err \<Rightarrow> catch_block_standalone e [] err
      | Inr pubSubMessage \<Rightarrow>
          if \<not> truthy pubSubMessage
          then \<lparr>response = Some \<lparr>status = 400,
                                   send = [(''error'', Text ''No Pub/Sub message received'')]\<rparr>,
                trace = [Log Err ''No Pub/Sub message received.'' []]\<rparr>
          else
     (case decodedData e request_body of
        Inl err \<Rightarrow> catch_block_standalone e [] err
      | Inr None \<Rightarrow>
          \<lparr>response = Some \<lparr>status = 400,
                              send = [(''error'', Text ''No data found in Pub/Sub message'')]\<rparr>,
           trace = [Log Err ''No data found in Pub/Sub message.'' []]\<rparr>
      | Inr (Some decoded) \<Rightarrow>
          if decoded = []
          then \<lparr>response = Some \<lparr>status = 400,
                                   send = [(''error'', Text ''No data found in Pub/Sub message'')]\<rparr>,
                trace = [Log Err ''No data found in Pub/Sub message.'' []]\<rparr>
          else (case JSON_parse e decoded of
                  Inl msg \<Rightarrow> catch_block_standalone e [] (JsError msg)
                | Inr jsonData \<Rightarrow> process_event_standalone e jsonData)))"

section \<open>Image analysis: \<open>getImageData\<close>\<close>

text \<open>
  The part of the Vision API's annotation that \<open>getImageData\<close> reads. A field the API left
  out (\<open>null\<close> or \<open>undefined\<close>) is \<open>None\<close>; a colour has numeric components, as the API
  returns them.
\<close>

datatype entity = Entity (entity_description: "string option")

datatype localized_object = LocalizedObject (object_name: "string option")

record rgb =
  red :: rat
  green :: rat
  blue :: rat

datatype color_info = ColorInfo (color: rgb)

datatype dominant_colors = DominantColors (colors_of: "color_info list option")

datatype image_properties = ImageProperties (dominantColors: "dominant_colors option")

datatype web_detection = WebDetection (webEntities_of: "entity list option")

record annotate_result =
  labelAnnotations :: "entity list option"
  localizedObjectAnnotations :: "localized_object list option"
  imagePropertiesAnnotation :: "image_properties option"
  textAnnotations :: "entity list option"
  webDetection :: "web_detection option"

record annotate_request =
  imageUri :: jsval
  features :: "string list"

text \<open>\<open>Math.round\<close>: to the nearest integer, a tie towards \<open>+\<infinity>\<close>.\<close>

definition Math_round :: "rat \<Rightarrow> int" where
  "Math_round x = \<lfloor>x + 1 / 2\<rfloor>"

text \<open>An integer in a template literal: its decimal digits (printed in full below
  \<open>10^21\<close>, far above any colour component).\<close>

fun digits :: "nat \<Rightarrow> string" where
  "digits n = (if n < 10 then [char_of (48 + n)]
               else digits (n div 10) @ [char_of (48 + n mod 10)])"

declare digits.simps [simp del]

definition string_of_int :: "int \<Rightarrow> string" where
  "string_of_int i = (if i < 0 then CHR ''-'' # digits (nat (- i)) else digits (nat i))"

definition color_string :: "color_info \<Rightarrow> string" where
  "color_string c =
     (let rgb = color c
      in string_of_int (Math_round (red rgb)) @ '', '' @ string_of_int (Math_round (green rgb))
         @ '', '' @ string_of_int (Math_round (blue rgb)))"

text \<open>\<open>Array.prototype.join\<close>: \<open>null\<close> and \<open>undefined\<close> elements print as the empty string.\<close>

fun join :: "string \<Rightarrow> string option list \<Rightarrow> string" where
  "join sep [] = []"
| "join sep [x] = (case x of None \<Rightarrow> [] | Some s \<Rightarrow> s)"
| "join sep (x # y # ys) = (case x of None \<Rightarrow> [] | Some s \<Rightarrow> s) @ sep @ join sep (y # ys)"

text \<open>\<open>s || fallback\<close> on a string \<open>s\<close>.\<close>

definition or_else :: "string \<Rightarrow> string \<Rightarrow> string" where
  "or_else s fallback = (if s = [] then fallback else s)"

text \<open>The object \<open>getImageData\<close> returns, from the first element of the annotation's result.\<close>

definition image_data_of :: "annotate_result \<Rightarrow> image_data" where
  "image_data_of result =
     \<lparr>labels =
        (case labelAnnotations result of
           None \<Rightarrow> ''No labels detected''
         | Some ls \<Rightarrow> or_else (join '', '' (map entity_description ls)) ''No labels detected''),
      objects =
        (case localizedObjectAnnotations result of
           None \<Rightarrow> ''No objects detected''
         | Some os \<Rightarrow> or_else (join '', '' (map object_name os)) ''No objects detected''),
      colors =
        (case imagePropertiesAnnotation result of
           None \<Rightarrow> [''No colors detected'']
         | Some props \<Rightarrow>
             (case dominantColors props of
                None \<Rightarrow> [''No colors detected'']
              | Some dc \<Rightarrow>
                  (case colors_of dc of
                     None \<Rightarrow> [''No colors detected'']
                   | Some cs \<Rightarrow> map color_string (take 3 cs)))),
      detectedText =
        (case textAnnotations result of
           None \<Rightarrow> ''No text detected''
         | Some [] \<Rightarrow> ''No text detected''
         | Some (t # _) \<Rightarrow>
             (case entity_description t of
                None \<Rightarrow> ''No text detected''
              | Some s \<Rightarrow> or_else s ''No text detected'')),
      webEntities =
        (case webDetection result of
           None \<Rightarrow> ''No web entities detected''
         | Some wd \<Rightarrow>
             (case webEntities_of wd of
                None \<Rightarrow> ''No web entities detected''
              | Some es \<Rightarrow>
                  or_else (join '', '' (map entity_description (take 5 es)))
                          ''No web entities detected''))\<rparr>"

definition getImageData ::
  "(annotate_request \<Rightarrow> thrown + annotate_result) \<Rightarrow> jsval \<Rightarrow> thrown + image_data" where
  "getImageData annotateImage imageURL =
     (case annotateImage
             \<lparr>imageUri = imageURL,
              features = [''LABEL_DETECTION'', ''OBJECT_LOCALIZATION'', ''IMAGE_PROPERTIES'',
                          ''TEXT_DETECTION'', ''SAFE_SEARCH_DETECTION'', ''WEB_DETECTION'']\<rparr> of
        Inl err \<Rightarrow> Inl err
      | Inr result \<Rightarrow> Inr (image_data_of result))"

section \<open>Persistence: the product repository\<close>

text \<open>
  The two requests \<open>updateProductDescription\<close> sends through the API root: \<open>get().execute()\<close>
  and \<open>post({body}).execute()\<close> on \<open>products().withId({ID})\<close>. A localized string is the
  list of its locales.
\<close>

record product_update_action =
  action :: string
  description :: "(string \<times> string) list"

record product_update =
  version :: jsval
  actions :: "product_update_action list"

record api_root =
  get_execute :: "jsval \<Rightarrow> thrown + client_response"
  post_execute :: "jsval \<Rightarrow> product_update \<Rightarrow> thrown + client_response"

datatype api_event =
    Api_log level string
  | Api_get jsval
  | Api_post jsval product_update

fun is_post :: "api_event \<Rightarrow> bool" where
  "is_post (Api_post _ _) = True"
| "is_post _ = False"

text \<open>The requests among the events of the repository (the rest are log lines).\<close>

fun is_request :: "api_event \<Rightarrow> bool" where
  "is_request (Api_log _ _) = False"
| "is_request _ = True"

text \<open>\<open>updateProductDescription\<close> of the product repository (the single-file variant holds
  the same function without the two log lines): its result and the requests it made.\<close>

definition updateProductDescription_repo ::
  "api_root \<Rightarrow> jsval \<Rightarrow> string \<Rightarrow> (thrown + client_response) \<times> api_event list" where
  "updateProductDescription_repo apiRoot productId desc =
     (let t0 = [Api_log Info (check_mark @ '' Updating product description in Commerce Tools.''),
                Api_get productId]
      in case get_execute apiRoot productId of
           Inl err \<Rightarrow> (Inl err, t0)
         | Inr productResponse \<Rightarrow>
             (case member (body productResponse) ''version'' of
                Inl err \<Rightarrow> (Inl err, t0)
              | Inr currentVersion \<Rightarrow>
                  (let updateActions = [\<lparr>action = ''setDescription'',
                                          description = [(''en'', desc)]\<rparr>];
                       update = \<lparr>version = currentVersion, actions = updateActions\<rparr>;
                       t1 = t0 @ [Api_post productId update]
                   in case post_execute apiRoot productId update of
                        Inl err \<Rightarrow> (Inl err, t1)
                      | Inr updateResponse \<Rightarrow>
                          (Inr updateResponse,
                           t1 @ [Api_log Info (check_mark @
                                   '' Product description updated successfully in Commerce Tools.'')]))))"

section \<open>The replies the specification names\<close>

text \<open>The reply to a failure: status 500 with the fixed message and the error's message as
  \<open>details\<close>, or, for a thrown value that is no \<open>Error\<close>, the generic message alone.\<close>

fun failure_reply :: "thrown \<Rightarrow> http_response" where
  "failure_reply (JsError m) =
     \<lparr>status = 500, send = [(''error'', Text internal_error_message), (''details'', Text m)]\<rparr>"
| "failure_reply (JsOther v) =
     \<lparr>status = 500, send = [(''error'', Text unexpected_error_message)]\<rparr>"

section \<open>Test doubles\<close>

text \<open>
  Concrete collaborators and payloads in the manner of the repository's tests: the decoder
  knows the base64 payloads used below, the parser the documents they hold, \<open>String\<close> the
  primitives and plain objects, and the three collaborators answer with the tests' mock
  values.
\<close>

definition is_space :: "char \<Rightarrow> bool" where
  "is_space c = (c \<in> set [CHR '' '', CHR 0x09, CHR 0x0A, CHR 0x0B, CHR 0x0C, CHR 0x0D])"

definition trim_ascii :: "string \<Rightarrow> string" where
  "trim_ascii s = rev (dropWhile is_space (rev (dropWhile is_space s)))"

definition enabled_text :: string where
  \<open>enabled_text = ''{"resource":{"typeId":"product"},"productProjection":{"id":"test-product-id","masterVariant":{"images":[{"url":"https://example.com/test-image.jpg"}],"attributes":[{"name":"generateDescription","value":"true"}]}}}''\<close>

definition enabled_base64 :: string where
  "enabled_base64 = ''eyJyZXNvdXJjZSI6eyJ0eXBlSWQiOiJwcm9kdWN0In0sInByb2R1Y3RQcm9qZWN0aW9uIjp7ImlkIjoidGVzdC1wcm9kdWN0LWlkIiwibWFzdGVyVmFyaWFudCI6eyJpbWFnZXMiOlt7InVybCI6Imh0dHBzOi8vZXhhbXBsZS5jb20vdGVzdC1pbWFnZS5qcGcifV0sImF0dHJpYnV0ZXMiOlt7Im5hbWUiOiJnZW5lcmF0ZURlc2NyaXB0aW9uIiwidmFsdWUiOiJ0cnVlIn1dfX19''"

definition projection_fields :: "jsval \<Rightarrow> (string \<times> jsval) list" where
  "projection_fields flag =
     [(''productProjection'',
       VObj [(''id'', VStr ''test-product-id''),
             (''masterVariant'',
              VObj [(''images'', VArr [VObj [(''url'', VStr ''https://example.com/test-image.jpg'')]]),
                    (''attributes'',
                     VArr [VObj [(''name'', VStr ''generateDescription''),
                                 (''value'', flag)]])])])]"

definition product_event :: "jsval \<Rightarrow> jsval" where
  "product_event flag =
     VObj ((''resource'', VObj [(''typeId'', VStr ''product'')]) # projection_fields flag)"

definition category_text :: string where
  \<open>category_text = ''{"productProjection":{"id":"test-product-id","masterVariant":{"images":[{"url":"https://example.com/test-image.jpg"}],"attributes":[{"name":"generateDescription","value":"true"}]}},"resource":{"typeId":"category"}}''\<close>

definition category_base64 :: string where
  "category_base64 = ''eyJwcm9kdWN0UHJvamVjdGlvbiI6eyJpZCI6InRlc3QtcHJvZHVjdC1pZCIsIm1hc3RlclZhcmlhbnQiOnsiaW1hZ2VzIjpbeyJ1cmwiOiJodHRwczovL2V4YW1wbGUuY29tL3Rlc3QtaW1hZ2UuanBnIn1dLCJhdHRyaWJ1dGVzIjpbeyJuYW1lIjoiZ2VuZXJhdGVEZXNjcmlwdGlvbiIsInZhbHVlIjoidHJ1ZSJ9XX19LCJyZXNvdXJjZSI6eyJ0eXBlSWQiOiJjYXRlZ29yeSJ9fQ==''"

definition category_event :: jsval where
  "category_event =
     VObj (projection_fields (VStr ''true'')
           @ [(''resource'', VObj [(''typeId'', VStr ''category'')])])"

definition disabled_text :: string where
  \<open>disabled_text = ''{"resource":{"typeId":"product"},"productProjection":{"id":"test-product-id","masterVariant":{"images":[{"url":"https://example.com/test-image.jpg"}],"attributes":[{"name":"generateDescription","value":true}]}}}''\<close>

definition disabled_base64 :: string where
  "disabled_base64 = ''eyJyZXNvdXJjZSI6eyJ0eXBlSWQiOiJwcm9kdWN0In0sInByb2R1Y3RQcm9qZWN0aW9uIjp7ImlkIjoidGVzdC1wcm9kdWN0LWlkIiwibWFzdGVyVmFyaWFudCI6eyJpbWFnZXMiOlt7InVybCI6Imh0dHBzOi8vZXhhbXBsZS5jb20vdGVzdC1pbWFnZS5qcGcifV0sImF0dHJpYnV0ZXMiOlt7Im5hbWUiOiJnZW5lcmF0ZURlc2NyaXB0aW9uIiwidmFsdWUiOnRydWV9XX19fQ==''"

definition no_image_text :: string where
  \<open>no_image_text = ''{"resource":{"typeId":"product"},"productProjection":{"id":"test-product-id"}}''\<close>

definition no_image_base64 :: string where
  "no_image_base64 = ''eyJyZXNvdXJjZSI6eyJ0eXBlSWQiOiJwcm9kdWN0In0sInByb2R1Y3RQcm9qZWN0aW9uIjp7ImlkIjoidGVzdC1wcm9kdWN0LWlkIn19''"

definition no_image_event :: jsval where
  "no_image_event =
     VObj [(''resource'', VObj [(''typeId'', VStr ''product'')]),
           (''productProjection'', VObj [(''id'', VStr ''test-product-id'')])]"

definition mock_base64 :: "(string \<times> string) list" where
  "mock_base64 =
     [(''ICAg'', ''   ''),
      (''aW52YWxpZC1qc29u'', ''invalid-json''),
      (enabled_base64, enabled_text),
      (disabled_base64, disabled_text),
      (no_image_base64, no_image_text),
      (category_base64, category_text)]"

definition mock_documents :: "(string \<times> jsval) list" where
  "mock_documents =
     [(enabled_text, product_event (VStr ''true'')),
      (disabled_text, product_event (VBool True)),
      (no_image_text, no_image_event),
      (category_text, category_event)]"

definition mockImageData :: image_data where
  "mockImageData =
     \<lparr>labels = ''cotton, t-shirt, casual wear'', objects = ''shirt, collar'',
      colors = [''255, 255, 255'', ''0, 0, 0''], detectedText = ''Brand Logo'',
      webEntities = ''fashion, apparel, clothing''\<rparr>"

definition mockDescription :: string where
  "mockDescription = ''A premium cotton t-shirt perfect for casual wear.''"

definition mockCommerceToolsResponse :: client_response where
  "mockCommerceToolsResponse =
     \<lparr>body = VObj [(''id'', VStr ''test-product-id''), (''version'', VNum 2),
                   (''description'', VObj [(''en'', VStr mockDescription)])]\<rparr>"

definition mock_env :: env where
  "mock_env =
     \<lparr>Buffer_from_base64 =
        (\<lambda>v. case v of
               VStr s \<Rightarrow> (case map_of mock_base64 s of None \<Rightarrow> Inr [] | Some t \<Rightarrow> Inr t)
             | _ \<Rightarrow> Inl (JsError ''The first argument must be of type string'')),
      trim = trim_ascii,
      JSON_parse =
        (\<lambda>s. case map_of mock_documents s of
               None \<Rightarrow> Inl ''Unexpected token in JSON at position 0''
             | Some j \<Rightarrow> Inr j),
      String_of =
        (\<lambda>v. case v of
               VUndefined \<Rightarrow> ''undefined''
             | VNull \<Rightarrow> ''null''
             | VBool b \<Rightarrow> (if b then ''true'' else ''false'')
             | VStr s \<Rightarrow> s
             | _ \<Rightarrow> ''[object Object]''),
      productAnalysis = (\<lambda>_. Inr mockImageData),
      generateProductDescription = (\<lambda>_. Inr mockDescription),
      updateProductDescription = (\<lambda>_ _. Inr mockCommerceToolsResponse)\<rparr>"

definition pubsub_request :: "string \<Rightarrow> jsval" where
  "pubsub_request payload = VObj [(''message'', VObj [(''data'', VStr payload)])]"

definition mockApiRoot :: api_root where
  "mockApiRoot =
     \<lparr>get_execute = (\<lambda>_. Inr \<lparr>body = VObj [(''id'', VStr ''product-123''), (''version'', VNum 1)]\<rparr>),
      post_execute = (\<lambda>_ _. Inr \<lparr>body = VObj [(''id'', VStr ''product-123''), (''version'', VNum 2)]\<rparr>)\<rparr>"

definition empty_lists_result :: annotate_result where
  "empty_lists_result =
     \<lparr>labelAnnotations = Some [],
      localizedObjectAnnotations = Some [],
      imagePropertiesAnnotation = Some (ImageProperties (Some (DominantColors (Some [])))),
      textAnnotations = Some [],
      webDetection = Some (WebDetection (Some []))\<rparr>"

definition repeated_flag_event :: jsval where
  "repeated_flag_event =
     VObj [(''productProjection'',
            VObj [(''id'', VStr ''test-product-id''),
                  (''masterVariant'',
                   VObj [(''images'', VArr [VObj [(''url'', VStr ''https://example.com/test-image.jpg'')]]),
                         (''attributes'',
                          VArr [VObj [(''name'', VStr ''color''), (''value'', VStr ''red'')],
                                VObj [(''name'', VStr ''generateDescription''), (''value'', VStr ''true'')],
                                VObj [(''name'', VStr ''generateDescription''), (''value'', VStr ''false'')]])])])]"

definition mockVisionResponse :: annotate_result where
  "mockVisionResponse =
     \<lparr>labelAnnotations = Some [Entity (Some ''shirt''), Entity (Some ''cotton'')],
      localizedObjectAnnotations = Some [LocalizedObject (Some ''Clothing'')],
      imagePropertiesAnnotation =
        Some (ImageProperties (Some (DominantColors
          (Some [ColorInfo \<lparr>red = 255, green = 255, blue = 255\<rparr>])))),
      textAnnotations = Some [Entity (Some ''Brand Name'')],
      webDetection = Some (WebDetection (Some [Entity (Some ''Fashion'')]))\<rparr>"

definition missing_annotations :: annotate_result where
  "missing_annotations =
     \<lparr>labelAnnotations = None, localizedObjectAnnotations = None,
      imagePropertiesAnnotation = None, textAnnotations = None, webDetection = None\<rparr>"

section \<open>Helper facts\<close>

lemma truthy_own: "truthy (own v k) \<Longrightarrow> truthy v"
  by (cases v) simp_all

lemma truthy_productId_of: "truthy (productId_of jsonData) \<Longrightarrow> \<not> nullish jsonData"
  by (cases jsonData) (simp_all add: productId_of_def opt_member_def)

lemma post_parsed:
  "decodedData e request_body = Inr (Some decoded) \<Longrightarrow> decoded \<noteq> [] \<Longrightarrow>
   JSON_parse e decoded = Inr jsonData \<Longrightarrow> post e request_body = process_event e jsonData"
  by (simp add: post_def)

lemma decodedData_message:
  assumes "decodedData e request_body = Inr (Some decoded)"
  shows "\<exists>m. member request_body ''message'' = Inr m \<and> truthy m"
proof -
  from assms obtain m where m: "member request_body ''message'' = Inr m"
    by (auto simp: decodedData_def split: sum.splits)
  from assms m obtain d where d: "member m ''data'' = Inr d" "truthy d"
    by (auto simp: decodedData_def split: sum.splits if_splits)
  from d have "truthy (own m ''data'')"
    by (auto simp: member_def split: if_splits)
  then have "truthy m" by (rule truthy_own)
  with m show ?thesis by blast
qed

lemma post_standalone_parsed:
  assumes "decodedData e request_body = Inr (Some decoded)" and "decoded \<noteq> []"
    and "JSON_parse e decoded = Inr jsonData"
  shows "post_standalone e request_body = process_event_standalone e jsonData"
proof -
  from decodedData_message [OF assms(1)] obtain m
    where "member request_body ''message'' = Inr m" "truthy m" by blast
  with assms show ?thesis by (simp add: post_standalone_def)
qed

lemma mock_decode_enabled:
  "decodedData mock_env (pubsub_request enabled_base64) = Inr (Some enabled_text)"
  by (simp add: decodedData_def pubsub_request_def member_def mock_env_def mock_base64_def
      enabled_base64_def trim_ascii_def is_space_def enabled_text_def)

lemma mock_decode_disabled:
  "decodedData mock_env (pubsub_request disabled_base64) = Inr (Some disabled_text)"
  by (simp add: decodedData_def pubsub_request_def member_def mock_env_def mock_base64_def
      enabled_base64_def disabled_base64_def trim_ascii_def is_space_def disabled_text_def)

lemma mock_decode_no_image:
  "decodedData mock_env (pubsub_request no_image_base64) = Inr (Some no_image_text)"
  by (simp add: decodedData_def pubsub_request_def member_def mock_env_def mock_base64_def
      enabled_base64_def disabled_base64_def no_image_base64_def trim_ascii_def is_space_def
      no_image_text_def)

lemma mock_parse_enabled:
  "JSON_parse mock_env enabled_text = Inr (product_event (VStr ''true''))"
  by (simp add: mock_env_def mock_documents_def)

lemma mock_parse_disabled:
  "JSON_parse mock_env disabled_text = Inr (product_event (VBool True))"
  by (simp add: mock_env_def mock_documents_def enabled_text_def disabled_text_def)

lemma mock_parse_no_image:
  "JSON_parse mock_env no_image_text = Inr no_image_event"
  by (simp add: mock_env_def mock_documents_def enabled_text_def disabled_text_def no_image_text_def)

lemma product_event_fields:
  "\<not> nullish (product_event flag)"
  "productId_of (product_event flag) = VStr ''test-product-id''"
  "imageUrl_of (product_event flag) = VStr ''https://example.com/test-image.jpg''"
  "genDescriptionValue ''generateDescription'' (product_event flag) = Inr flag"
  by (simp_all add: product_event_def projection_fields_def productId_of_def imageUrl_of_def
      masterVariant_of_def opt_member_def genDescriptionValue_def attributes_of_def)

section \<open>The claims\<close>

text \<open>
  C1. A request whose event has a product id and an image URL (both truthy, which is how
  the handler tests presence) and whose flag attribute is exactly the string \<open>true\<close>, with
  three collaborators that return: image analysis is called once with the image URL, text
  generation once with the analysis unchanged, persistence once with the product id and
  the generated text unchanged, nothing else is called, and the answer is 200 with
  \<open>productId\<close>, \<open>imageUrl\<close>, \<open>description\<close>, \<open>productAnalysis\<close> and \<open>commerceToolsUpdate\<close>
  (the body of the persistence response) exactly as returned.
\<close>

theorem enrichment_success:
  assumes "decodedData e request_body = Inr (Some decoded)" and "decoded \<noteq> []"
    and "JSON_parse e decoded = Inr jsonData"
    and "truthy (productId_of jsonData)" and "truthy (imageUrl_of jsonData)"
    and "genDescriptionValue ''generateDescription'' jsonData = Inr (VStr ''true'')"
    and "productAnalysis e (imageUrl_of jsonData) = Inr imageData"
    and "generateProductDescription e imageData = Inr generated"
    and "updateProductDescription e (productId_of jsonData) generated = Inr updateResponse"
  shows "collaborator_calls (post e request_body) =
           [Call_productAnalysis (imageUrl_of jsonData),
            Call_generateProductDescription imageData,
            Call_updateProductDescription (productId_of jsonData) generated]
       \<and> response (post e request_body) =
           Some \<lparr>status = 200,
                 send = [(''productId'', Value (productId_of jsonData)),
                         (''imageUrl'', Value (imageUrl_of jsonData)),
                         (''description'', Text generated),
                         (''productAnalysis'', Analysis imageData),
                         (''commerceToolsUpdate'', Value (body updateResponse))]\<rparr>"
proof -
  have "post e request_body = process_event e jsonData"
    using assms(1-3) by (rule post_parsed)
  moreover have "\<not> nullish jsonData"
    using assms(4) by (rule truthy_productId_of)
  then have "process_event e jsonData =
      pipeline e (if opt_member (own jsonData ''resource'') ''typeId'' = VStr ''product''
                  then [Log Info (check_mark @ '' Event message received.'') [],
                        Log Info (check_mark @ '' Processing event message.'') []]
                  else []) (productId_of jsonData) (imageUrl_of jsonData)"
    using assms(4-6) by (simp add: process_event_def enrich_def member_def Let_def)
  ultimately show ?thesis
    using assms(7-9) by (simp add: pipeline_def Let_def collaborator_calls_def)
qed

theorem enrichment_success_witness:
  "collaborator_calls (post mock_env (pubsub_request enabled_base64)) =
     [Call_productAnalysis (VStr ''https://example.com/test-image.jpg''),
      Call_generateProductDescription mockImageData,
      Call_updateProductDescription (VStr ''test-product-id'') mockDescription]
   \<and> response (post mock_env (pubsub_request enabled_base64)) =
     Some \<lparr>status = 200,
           send = [(''productId'', Value (VStr ''test-product-id'')),
                   (''imageUrl'', Value (VStr ''https://example.com/test-image.jpg'')),
                   (''description'', Text mockDescription),
                   (''productAnalysis'', Analysis mockImageData),
                   (''commerceToolsUpdate'', Value (body mockCommerceToolsResponse))]\<rparr>"
proof -
  have nonempty: "enabled_text \<noteq> []" by (simp add: enabled_text_def)
  have pa: "productAnalysis mock_env (imageUrl_of (product_event (VStr ''true''))) = Inr mockImageData"
    and gen: "generateProductDescription mock_env mockImageData = Inr mockDescription"
    and upd: "updateProductDescription mock_env (productId_of (product_event (VStr ''true'')))
                mockDescription = Inr mockCommerceToolsResponse"
    by (simp_all add: mock_env_def)
  have tr: "truthy (productId_of (product_event (VStr ''true'')))"
    "truthy (imageUrl_of (product_event (VStr ''true'')))"
    by (simp_all add: product_event_fields)
  from enrichment_success [OF mock_decode_enabled nonempty mock_parse_enabled
      tr product_event_fields(4) pa gen upd]
  show ?thesis by (simp add: product_event_fields)
qed

text \<open>
  C3. For an event with product id and image URL present (truthy) whose flag lookup yields
  any value other than the string \<open>true\<close> (\<open>undefined\<close> for a missing attribute, \<open>false\<close>,
  the string \<open>false\<close>, the boolean \<open>true\<close>, ...), no collaborator is called and the answer
  is 200 with the not-enabled message, \<open>productId\<close> and \<open>imageUrl\<close>.
\<close>

theorem flag_not_true_skips:
  assumes "decodedData e request_body = Inr (Some decoded)" and "decoded \<noteq> []"
    and "JSON_parse e decoded = Inr jsonData"
    and "truthy (productId_of jsonData)" and "truthy (imageUrl_of jsonData)"
    and "genDescriptionValue ''generateDescription'' jsonData = Inr flag"
    and "flag \<noteq> VStr ''true''"
  shows "collaborator_calls (post e request_body) = []
       \<and> response (post e request_body) =
           Some \<lparr>status = 200,
                 send = [(''message'', Text not_enabled_message),
                         (''productId'', Value (productId_of jsonData)),
                         (''imageUrl'', Value (imageUrl_of jsonData))]\<rparr>"
proof -
  have "post e request_body = process_event e jsonData"
    using assms(1-3) by (rule post_parsed)
  moreover have "\<not> nullish jsonData"
    using assms(4) by (rule truthy_productId_of)
  ultimately show ?thesis
    using assms(4-7) by (simp add: process_event_def enrich_def member_def Let_def collaborator_calls_def)
qed

theorem flag_not_true_skips_witness:
  "VBool True \<noteq> VStr ''true''
   \<and> collaborator_calls (post mock_env (pubsub_request disabled_base64)) = []
   \<and> response (post mock_env (pubsub_request disabled_base64)) =
       Some \<lparr>status = 200,
             send = [(''message'', Text not_enabled_message),
                     (''productId'', Value (VStr ''test-product-id'')),
                     (''imageUrl'', Value (VStr ''https://example.com/test-image.jpg''))]\<rparr>"
proof -
  have nonempty: "disabled_text \<noteq> []" by (simp add: disabled_text_def)
  have tr: "truthy (productId_of (product_event (VBool True)))"
    "truthy (imageUrl_of (product_event (VBool True)))"
    by (simp_all add: product_event_fields)
  have ne: "VBool True \<noteq> VStr ''true''" by simp
  from flag_not_true_skips [OF mock_decode_disabled nonempty mock_parse_disabled
      tr product_event_fields(4) ne]
  show ?thesis by (simp add: product_event_fields)
qed

lemma mock_decode_blank:
  "decodedData mock_env (pubsub_request ''ICAg'') = Inr (Some [])"
  by (simp add: decodedData_def pubsub_request_def member_def mock_env_def mock_base64_def
      trim_ascii_def is_space_def)

lemma mock_decode_invalid:
  "decodedData mock_env (pubsub_request ''aW52YWxpZC1qc29u'') = Inr (Some ''invalid-json'')"
  by (simp add: decodedData_def pubsub_request_def member_def mock_env_def mock_base64_def
      trim_ascii_def is_space_def)

lemma mock_parse_invalid:
  "JSON_parse mock_env ''invalid-json'' = Inl ''Unexpected token in JSON at position 0''"
  by (simp add: mock_env_def mock_documents_def enabled_text_def disabled_text_def
      no_image_text_def category_text_def)

text \<open>
  A message (\<open>request.body.message\<close>) whose \<open>data\<close> field is absent (or otherwise falsy),
  or whose payload decodes and trims to the empty string: the answer is 400 with the
  fixed no-data message and no collaborator is called.
\<close>

lemma missing_payload:
  assumes "member request_body ''message'' = Inr pubSubMessage"
    and "\<not> nullish pubSubMessage"
    and "\<not> truthy (own pubSubMessage ''data'')
         \<or> (Buffer_from_base64 e (own pubSubMessage ''data'') = Inr raw \<and> trim e raw = [])"
  shows "response (post e request_body) =
           Some \<lparr>status = 400, send = [(''error'', Text no_data_message)]\<rparr>
       \<and> collaborator_calls (post e request_body) = []"
  using assms
  by (auto simp: post_def decodedData_def member_def collaborator_calls_def
           split: sum.splits option.splits if_splits)

lemma missing_payload_examples:
  "response (post mock_env (VObj [(''message'', VObj [])])) =
     Some \<lparr>status = 400, send = [(''error'', Text no_data_message)]\<rparr>
   \<and> collaborator_calls (post mock_env (VObj [(''message'', VObj [])])) = []
   \<and> response (post mock_env (pubsub_request ''ICAg'')) =
     Some \<lparr>status = 400, send = [(''error'', Text no_data_message)]\<rparr>
   \<and> collaborator_calls (post mock_env (pubsub_request ''ICAg'')) = []"
proof -
  have absent: "member (VObj [(''message'', VObj [])]) ''message'' = Inr (VObj [])"
    "\<not> nullish (VObj [])"
    "\<not> truthy (own (VObj []) ''data'')
       \<or> (Buffer_from_base64 mock_env (own (VObj []) ''data'') = Inr ''   ''
           \<and> trim mock_env ''   '' = [])"
    by (simp_all add: member_def)
  have blank: "member (pubsub_request ''ICAg'') ''message'' = Inr (VObj [(''data'', VStr ''ICAg'')])"
    "\<not> nullish (VObj [(''data'', VStr ''ICAg'')])"
    "\<not> truthy (own (VObj [(''data'', VStr ''ICAg'')]) ''data'')
       \<or> (Buffer_from_base64 mock_env (own (VObj [(''data'', VStr ''ICAg'')]) ''data'') = Inr ''   ''
           \<and> trim mock_env ''   '' = [])"
    by (simp_all add: member_def pubsub_request_def mock_env_def mock_base64_def
        trim_ascii_def is_space_def)
  from missing_payload [OF absent] missing_payload [OF blank]
  show ?thesis by simp
qed

text \<open>
  C4 at a request body without \<open>message\<close>, whose payload field is absent with it: the
  event controller reads \<open>pubSubMessage.data\<close> of \<open>undefined\<close>, the TypeError reaches the
  catch block, and the answer is 500 with the internal-error message and the TypeError
  text as \<open>details\<close>, not the 400 of a missing payload. No collaborator is called. The
  single-file variant tests for the message first and answers 400.
\<close>

theorem missing_message_answers_500:
  "response (post e (VObj [])) =
     Some \<lparr>status = 500,
           send = [(''error'', Text internal_error_message),
                   (''details'',
                    Text (''Cannot read properties of undefined (reading '' @ [CHR 0x27]
                          @ ''data'' @ [CHR 0x27] @ '')''))]\<rparr>
   \<and> collaborator_calls (post e (VObj [])) = []
   \<and> response (post_standalone e (VObj [])) =
     Some \<lparr>status = 400, send = [(''error'', Text ''No Pub/Sub message received'')]\<rparr>"
  by (simp add: post_def post_standalone_def decodedData_def member_def cannot_read_def
      collaborator_calls_def)

text \<open>
  C5. A payload that decodes to a non-empty string which \<open>JSON.parse\<close> rejects: the
  answer is 500 (not 400) with the fixed internal-error message and the parse error's
  message as \<open>details\<close>, and no collaborator is called.
\<close>

theorem malformed_payload:
  assumes "decodedData e request_body = Inr (Some decoded)" and "decoded \<noteq> []"
    and "JSON_parse e decoded = Inl msg"
  shows "response (post e request_body) =
           Some \<lparr>status = 500,
                 send = [(''error'', Text internal_error_message), (''details'', Text msg)]\<rparr>
       \<and> collaborator_calls (post e request_body) = []"
  using assms by (simp add: post_def collaborator_calls_def)

theorem malformed_payload_witness:
  "response (post mock_env (pubsub_request ''aW52YWxpZC1qc29u'')) =
     Some \<lparr>status = 500,
           send = [(''error'', Text internal_error_message),
                   (''details'', Text ''Unexpected token in JSON at position 0'')]\<rparr>
   \<and> collaborator_calls (post mock_env (pubsub_request ''aW52YWxpZC1qc29u'')) = []"
proof -
  have nonempty: "''invalid-json'' \<noteq> []" by simp
  from malformed_payload [OF mock_decode_invalid nonempty mock_parse_invalid]
  show ?thesis .
qed

text \<open>
  C6. On a request that reaches the pipeline, the first stage that throws ends it: after a
  failure of image analysis neither text generation nor persistence is called, after a
  failure of text generation persistence is not called, and the answer is the failure
  reply: 500 with the error's message as \<open>details\<close>, or the generic message alone when
  the thrown value is no \<open>Error\<close>.
\<close>

theorem stage_failure_aborts:
  assumes "decodedData e request_body = Inr (Some decoded)" and "decoded \<noteq> []"
    and "JSON_parse e decoded = Inr jsonData"
    and "truthy (productId_of jsonData)" and "truthy (imageUrl_of jsonData)"
    and "genDescriptionValue ''generateDescription'' jsonData = Inr (VStr ''true'')"
  shows "(productAnalysis e (imageUrl_of jsonData) = Inl err \<longrightarrow>
            collaborator_calls (post e request_body) =
              [Call_productAnalysis (imageUrl_of jsonData)]
          \<and> response (post e request_body) = Some (failure_reply err))
       \<and> (productAnalysis e (imageUrl_of jsonData) = Inr imageData
          \<and> generateProductDescription e imageData = Inl err \<longrightarrow>
            collaborator_calls (post e request_body) =
              [Call_productAnalysis (imageUrl_of jsonData),
               Call_generateProductDescription imageData]
          \<and> response (post e request_body) = Some (failure_reply err))
       \<and> (productAnalysis e (imageUrl_of jsonData) = Inr imageData
          \<and> generateProductDescription e imageData = Inr generated
          \<and> updateProductDescription e (productId_of jsonData) generated = Inl err \<longrightarrow>
            collaborator_calls (post e request_body) =
              [Call_productAnalysis (imageUrl_of jsonData),
               Call_generateProductDescription imageData,
               Call_updateProductDescription (productId_of jsonData) generated]
          \<and> response (post e request_body) = Some (failure_reply err))"
proof -
  have "post e request_body = process_event e jsonData"
    using assms(1-3) by (rule post_parsed)
  moreover have "\<not> nullish jsonData"
    using assms(4) by (rule truthy_productId_of)
  then have "process_event e jsonData =
      pipeline e (if opt_member (own jsonData ''resource'') ''typeId'' = VStr ''product''
                  then [Log Info (check_mark @ '' Event message received.'') [],
                        Log Info (check_mark @ '' Processing event message.'') []]
                  else []) (productId_of jsonData) (imageUrl_of jsonData)"
    using assms(4-6) by (simp add: process_event_def enrich_def member_def Let_def)
  ultimately show ?thesis
    by (cases err) (simp_all add: pipeline_def Let_def collaborator_calls_def)
qed


lemma decodedData_collaborators:
  "decodedData (e\<lparr>productAnalysis := f\<rparr>) = decodedData e"
  "decodedData (e\<lparr>generateProductDescription := g\<rparr>) = decodedData e"
  "decodedData (e\<lparr>updateProductDescription := h\<rparr>) = decodedData e"
  by (simp_all add: decodedData_def fun_eq_iff split: sum.splits)

theorem stage_failure_aborts_witness:
  "collaborator_calls
     (post (mock_env\<lparr>productAnalysis := \<lambda>_. Inl (JsError ''Vision AI service failed'')\<rparr>)
           (pubsub_request enabled_base64)) =
     [Call_productAnalysis (VStr ''https://example.com/test-image.jpg'')]
   \<and> response
     (post (mock_env\<lparr>productAnalysis := \<lambda>_. Inl (JsError ''Vision AI service failed'')\<rparr>)
           (pubsub_request enabled_base64)) =
     Some \<lparr>status = 500,
           send = [(''error'', Text internal_error_message),
                   (''details'', Text ''Vision AI service failed'')]\<rparr>
   \<and> collaborator_calls
     (post (mock_env\<lparr>generateProductDescription :=
                       \<lambda>_. Inl (JsError ''Generative AI service failed'')\<rparr>)
           (pubsub_request enabled_base64)) =
     [Call_productAnalysis (VStr ''https://example.com/test-image.jpg''),
      Call_generateProductDescription mockImageData]
   \<and> response
     (post (mock_env\<lparr>generateProductDescription :=
                       \<lambda>_. Inl (JsError ''Generative AI service failed'')\<rparr>)
           (pubsub_request enabled_base64)) =
     Some \<lparr>status = 500,
           send = [(''error'', Text internal_error_message),
                   (''details'', Text ''Generative AI service failed'')]\<rparr>
   \<and> collaborator_calls
     (post (mock_env\<lparr>updateProductDescription := \<lambda>_ _. Inl (JsOther (VStr ''conflict''))\<rparr>)
           (pubsub_request enabled_base64)) =
     [Call_productAnalysis (VStr ''https://example.com/test-image.jpg''),
      Call_generateProductDescription mockImageData,
      Call_updateProductDescription (VStr ''test-product-id'') mockDescription]
   \<and> response
     (post (mock_env\<lparr>updateProductDescription := \<lambda>_ _. Inl (JsOther (VStr ''conflict''))\<rparr>)
           (pubsub_request enabled_base64)) =
     Some \<lparr>status = 500, send = [(''error'', Text unexpected_error_message)]\<rparr>"
proof -
  let ?j = "product_event (VStr ''true'')"
  let ?e1 = "mock_env\<lparr>productAnalysis := \<lambda>_. Inl (JsError ''Vision AI service failed'')\<rparr>"
  let ?e2 = "mock_env\<lparr>generateProductDescription :=
                        \<lambda>_. Inl (JsError ''Generative AI service failed'')\<rparr>"
  let ?e3 = "mock_env\<lparr>updateProductDescription := \<lambda>_ _. Inl (JsOther (VStr ''conflict''))\<rparr>"
  have nonempty: "enabled_text \<noteq> []" by (simp add: enabled_text_def)
  have tr: "truthy (productId_of ?j)" "truthy (imageUrl_of ?j)"
    by (simp_all add: product_event_fields)
  have d1: "decodedData ?e1 (pubsub_request enabled_base64) = Inr (Some enabled_text)"
    and d2: "decodedData ?e2 (pubsub_request enabled_base64) = Inr (Some enabled_text)"
    and d3: "decodedData ?e3 (pubsub_request enabled_base64) = Inr (Some enabled_text)"
    by (simp_all add: decodedData_collaborators mock_decode_enabled)
  have p1: "JSON_parse ?e1 enabled_text = Inr ?j"
    and p2: "JSON_parse ?e2 enabled_text = Inr ?j"
    and p3: "JSON_parse ?e3 enabled_text = Inr ?j"
    using mock_parse_enabled by simp_all
  have f1: "productAnalysis ?e1 (imageUrl_of ?j) = Inl (JsError ''Vision AI service failed'')"
    by simp
  have f2: "productAnalysis ?e2 (imageUrl_of ?j) = Inr mockImageData
            \<and> generateProductDescription ?e2 mockImageData
                = Inl (JsError ''Generative AI service failed'')"
    by (simp add: mock_env_def)
  have f3: "productAnalysis ?e3 (imageUrl_of ?j) = Inr mockImageData
            \<and> generateProductDescription ?e3 mockImageData = Inr mockDescription
            \<and> updateProductDescription ?e3 (productId_of ?j) mockDescription
                = Inl (JsOther (VStr ''conflict''))"
    by (simp add: mock_env_def)
  note a1 = stage_failure_aborts [OF d1 nonempty p1 tr
      product_event_fields(4), of "JsError ''Vision AI service failed''" mockImageData mockDescription]
  note a2 = stage_failure_aborts [OF d2 nonempty p2 tr
      product_event_fields(4), of "JsError ''Generative AI service failed''" mockImageData mockDescription]
  note a3 = stage_failure_aborts [OF d3 nonempty p3 tr
      product_event_fields(4), of "JsOther (VStr ''conflict'')" mockImageData mockDescription]
  from a1 f1 have r1: "collaborator_calls (post ?e1 (pubsub_request enabled_base64)) =
        [Call_productAnalysis (imageUrl_of ?j)]
      \<and> response (post ?e1 (pubsub_request enabled_base64)) =
        Some (failure_reply (JsError ''Vision AI service failed''))"
    by blast
  from a2 f2 have r2: "collaborator_calls (post ?e2 (pubsub_request enabled_base64)) =
        [Call_productAnalysis (imageUrl_of ?j), Call_generateProductDescription mockImageData]
      \<and> response (post ?e2 (pubsub_request enabled_base64)) =
        Some (failure_reply (JsError ''Generative AI service failed''))"
    by blast
  from a3 f3 have r3: "collaborator_calls (post ?e3 (pubsub_request enabled_base64)) =
        [Call_productAnalysis (imageUrl_of ?j), Call_generateProductDescription mockImageData,
         Call_updateProductDescription (productId_of ?j) mockDescription]
      \<and> response (post ?e3 (pubsub_request enabled_base64)) =
        Some (failure_reply (JsOther (VStr ''conflict'')))"
    by blast
  from r1 r2 r3 show ?thesis by (simp add: product_event_fields)
qed

lemma no_image_event_fields:
  "\<not> nullish no_image_event"
  "productId_of no_image_event = VStr ''test-product-id''"
  "imageUrl_of no_image_event = VUndefined"
  by (simp_all add: no_image_event_def productId_of_def imageUrl_of_def masterVariant_of_def
      opt_member_def)

text \<open>
  C2 on the code. For a parsed event (other than \<open>null\<close>) whose product id or image URL is
  absent (falsy), neither handler calls a collaborator. The event controller then falls
  out of its \<open>if (productId && imageUrl)\<close>, which has no \<open>else\<close>, and sends no response
  at all, where the claim has an accepted response without enrichment data; the
  single-file variant answers the same event with status 400 and the error
  \<open>productId or imageUrl is missing\<close>.
\<close>

theorem missing_product_data_unanswered:
  assumes "decodedData e request_body = Inr (Some decoded)" and "decoded \<noteq> []"
    and "JSON_parse e decoded = Inr jsonData" and "\<not> nullish jsonData"
    and "\<not> truthy (productId_of jsonData) \<or> \<not> truthy (imageUrl_of jsonData)"
  shows "collaborator_calls (post e request_body) = []
       \<and> response (post e request_body) = None
       \<and> collaborator_calls (post_standalone e request_body) = []
       \<and> response (post_standalone e request_body) =
           Some \<lparr>status = 400, send = [(''error'', Text ''productId or imageUrl is missing'')]\<rparr>"
proof -
  have "post e request_body = process_event e jsonData"
    using assms(1-3) by (rule post_parsed)
  moreover have "post_standalone e request_body = process_event_standalone e jsonData"
    using assms(1-3) by (rule post_standalone_parsed)
  ultimately show ?thesis
    using assms(4,5)
    by (auto simp: process_event_def enrich_def process_event_standalone_def member_def Let_def
        collaborator_calls_def)
qed

theorem missing_product_data_unanswered_witness:
  "imageUrl_of no_image_event = VUndefined
   \<and> collaborator_calls (post mock_env (pubsub_request no_image_base64)) = []
   \<and> response (post mock_env (pubsub_request no_image_base64)) = None
   \<and> collaborator_calls (post_standalone mock_env (pubsub_request no_image_base64)) = []
   \<and> response (post_standalone mock_env (pubsub_request no_image_base64)) =
       Some \<lparr>status = 400, send = [(''error'', Text ''productId or imageUrl is missing'')]\<rparr>"
proof -
  have nonempty: "no_image_text \<noteq> []" by (simp add: no_image_text_def)
  have absent: "\<not> truthy (productId_of no_image_event) \<or> \<not> truthy (imageUrl_of no_image_event)"
    by (simp add: no_image_event_fields)
  from missing_product_data_unanswered [OF mock_decode_no_image nonempty mock_parse_no_image
      no_image_event_fields(1) absent]
  show ?thesis by (simp add: no_image_event_fields)
qed

lemma find_by_name_first:
  assumes "\<forall>b \<in> set before. \<not> nullish b \<and> own b ''name'' \<noteq> VStr key"
    and "own attr ''name'' = VStr key"
  shows "find_by_name key (before @ attr # rest) = Inr attr"
  using assms
proof (induction before)
  case Nil
  then have "\<not> nullish attr" by (cases attr) simp_all
  with Nil show ?case by simp
next
  case (Cons b before)
  then show ?case by simp
qed

text \<open>
  C7. When the attributes array holds several entries named like the flag key, the flag
  value is the \<open>value\<close> of the first of them in array order: the entries before it have
  another name, the entries after it are not looked at. An absent \<open>attributes\<close> field is
  read as the empty array, so the flag value is \<open>undefined\<close>.
\<close>

theorem flag_first_match:
  "(opt_member (masterVariant_of jsonData) ''attributes'' = VArr (before @ attr # rest)
      \<and> (\<forall>b \<in> set before. \<not> nullish b \<and> own b ''name'' \<noteq> VStr key)
      \<and> own attr ''name'' = VStr key
    \<longrightarrow> genDescriptionValue key jsonData = Inr (own attr ''value''))
   \<and> (opt_member (masterVariant_of jsonData) ''attributes'' = VUndefined
    \<longrightarrow> attributes_of jsonData = VArr []
        \<and> genDescriptionValue key jsonData = Inr VUndefined)"
proof (intro conjI impI)
  assume a: "opt_member (masterVariant_of jsonData) ''attributes'' = VArr (before @ attr # rest)
      \<and> (\<forall>b \<in> set before. \<not> nullish b \<and> own b ''name'' \<noteq> VStr key)
      \<and> own attr ''name'' = VStr key"
  then have "find_by_name key (before @ attr # rest) = Inr attr"
    by (simp add: find_by_name_first)
  moreover from a have "\<not> nullish attr" by (cases attr) simp_all
  ultimately show "genDescriptionValue key jsonData = Inr (own attr ''value'')"
    using a by (simp add: genDescriptionValue_def attributes_of_def opt_member_def)
next
  assume "opt_member (masterVariant_of jsonData) ''attributes'' = VUndefined"
  then show "attributes_of jsonData = VArr []"
    by (simp add: attributes_of_def)
next
  assume "opt_member (masterVariant_of jsonData) ''attributes'' = VUndefined"
  then show "genDescriptionValue key jsonData = Inr VUndefined"
    by (simp add: genDescriptionValue_def attributes_of_def opt_member_def)
qed

theorem flag_first_match_witness:
  "genDescriptionValue ''generateDescription'' repeated_flag_event = Inr (VStr ''true'')
   \<and> attributes_of no_image_event = VArr []
   \<and> genDescriptionValue ''generateDescription'' no_image_event = Inr VUndefined"
proof -
  let ?a = "VObj [(''name'', VStr ''generateDescription''), (''value'', VStr ''true'')]"
  have first: "opt_member (masterVariant_of repeated_flag_event) ''attributes'' =
          VArr ([VObj [(''name'', VStr ''color''), (''value'', VStr ''red'')]] @ ?a
                # [VObj [(''name'', VStr ''generateDescription''), (''value'', VStr ''false'')]])
      \<and> (\<forall>b \<in> set [VObj [(''name'', VStr ''color''), (''value'', VStr ''red'')]].
            \<not> nullish b \<and> own b ''name'' \<noteq> VStr ''generateDescription'')
      \<and> own ?a ''name'' = VStr ''generateDescription''"
    by (simp add: repeated_flag_event_def masterVariant_of_def opt_member_def)
  have absent: "opt_member (masterVariant_of no_image_event) ''attributes'' = VUndefined"
    by (simp add: no_image_event_def masterVariant_of_def opt_member_def)
  from flag_first_match [of repeated_flag_event
      "[VObj [(''name'', VStr ''color''), (''value'', VStr ''red'')]]" ?a
      "[VObj [(''name'', VStr ''generateDescription''), (''value'', VStr ''false'')]]"
      "''generateDescription''"]
    first
  have "genDescriptionValue ''generateDescription'' repeated_flag_event = Inr (own ?a ''value'')"
    by blast
  moreover from flag_first_match [of no_image_event _ _ _ "''generateDescription''"] absent
  have "attributes_of no_image_event = VArr []
        \<and> genDescriptionValue ''generateDescription'' no_image_event = Inr VUndefined"
    by blast
  ultimately show ?thesis by simp
qed

lemma response_catch_block: "response (catch_block t err) = Some (failure_reply err)"
  by (cases err) simp_all

lemma calls_catch_block: "filter is_call (trace (catch_block t err)) = filter is_call t"
  by (cases err) simp_all

lemma pipeline_prefix:
  "response (pipeline e t p u) = response (pipeline e [] p u)
   \<and> collaborator_calls (pipeline e t p u) = filter is_call t @ collaborator_calls (pipeline e [] p u)"
  by (simp add: pipeline_def Let_def response_catch_block calls_catch_block
      collaborator_calls_def split: sum.splits)

lemma enrich_prefix:
  "response (enrich e t j) = response (enrich e [] j)
   \<and> collaborator_calls (enrich e t j) = filter is_call t @ collaborator_calls (enrich e [] j)"
proof (cases "truthy (productId_of j) \<and> truthy (imageUrl_of j)")
  case False
  then show ?thesis by (auto simp: enrich_def Let_def collaborator_calls_def)
next
  case gate: True
  show ?thesis
  proof (cases "genDescriptionValue ''generateDescription'' j")
    case (Inl err)
    with gate show ?thesis
      by (simp add: enrich_def Let_def collaborator_calls_def response_catch_block
          calls_catch_block)
  next
    case (Inr flag)
    show ?thesis
    proof (cases "flag = VStr ''true''")
      case True
      with gate Inr have "enrich e t j = pipeline e t (productId_of j) (imageUrl_of j)"
        "enrich e [] j = pipeline e [] (productId_of j) (imageUrl_of j)"
        by (simp_all add: enrich_def Let_def)
      then show ?thesis using pipeline_prefix [of e t] by simp
    next
      case False
      with gate Inr show ?thesis
        by (simp add: enrich_def Let_def collaborator_calls_def)
    qed
  qed
qed

lemma enrich_reads_projection:
  assumes "own j1 ''productProjection'' = own j2 ''productProjection''"
  shows "enrich e t j1 = enrich e t j2"
proof -
  have same: "productId_of j1 = productId_of j2" "imageUrl_of j1 = imageUrl_of j2"
    "genDescriptionValue ''generateDescription'' j1
       = genDescriptionValue ''generateDescription'' j2"
    using assms
    by (simp_all add: productId_of_def imageUrl_of_def masterVariant_of_def
        genDescriptionValue_def attributes_of_def)
  show ?thesis unfolding enrich_def same ..
qed

lemma process_event_reads_projection:
  assumes "\<not> nullish j1" and "\<not> nullish j2"
    and "own j1 ''productProjection'' = own j2 ''productProjection''"
  shows "response (process_event e j1) = response (process_event e j2)
       \<and> collaborator_calls (process_event e j1) = collaborator_calls (process_event e j2)"
proof -
  let ?t1 = "if opt_member (own j1 ''resource'') ''typeId'' = VStr ''product''
             then [Log Info (check_mark @ '' Event message received.'') [],
                   Log Info (check_mark @ '' Processing event message.'') []]
             else []"
  let ?t2 = "if opt_member (own j2 ''resource'') ''typeId'' = VStr ''product''
             then [Log Info (check_mark @ '' Event message received.'') [],
                   Log Info (check_mark @ '' Processing event message.'') []]
             else []"
  define t1 where "t1 = ?t1"
  define t2 where "t2 = ?t2"
  have t1: "process_event e j1 = enrich e t1 j1" "filter is_call t1 = []"
    using assms(1) by (simp_all add: process_event_def member_def t1_def)
  have t2: "process_event e j2 = enrich e t2 j2" "filter is_call t2 = []"
    using assms(2) by (simp_all add: process_event_def member_def t2_def)
  have "enrich e [] j1 = enrich e [] j2"
    using assms(3) by (rule enrich_reads_projection)
  with enrich_prefix [of e t1 j1] enrich_prefix [of e t2 j2] t1 t2
  show ?thesis by simp
qed

text \<open>
  C9. Two requests whose parsed events (neither of them \<open>null\<close>) agree on every property
  other than \<open>resource\<close>, so that they differ at most in \<open>resource.typeId\<close>, its presence
  or anything else under \<open>resource\<close>, get the same response, status and body, and cause
  the same collaborator calls: the check of \<open>resource.typeId\<close> only decides two log lines.
\<close>

theorem resource_type_not_gating:
  assumes "decodedData e request1 = Inr (Some decoded1)" and "decoded1 \<noteq> []"
    and "JSON_parse e decoded1 = Inr jsonData1"
    and "decodedData e request2 = Inr (Some decoded2)" and "decoded2 \<noteq> []"
    and "JSON_parse e decoded2 = Inr jsonData2"
    and "\<not> nullish jsonData1" and "\<not> nullish jsonData2"
    and "\<forall>k. k \<noteq> ''resource'' \<longrightarrow> own jsonData1 k = own jsonData2 k"
  shows "response (post e request1) = response (post e request2)
       \<and> collaborator_calls (post e request1) = collaborator_calls (post e request2)"
proof -
  have "post e request1 = process_event e jsonData1"
    using assms(1-3) by (rule post_parsed)
  moreover have "post e request2 = process_event e jsonData2"
    using assms(4-6) by (rule post_parsed)
  moreover have "own jsonData1 ''productProjection'' = own jsonData2 ''productProjection''"
    using assms(9) by simp
  with assms(7,8)
  have "response (process_event e jsonData1) = response (process_event e jsonData2)
      \<and> collaborator_calls (process_event e jsonData1)
        = collaborator_calls (process_event e jsonData2)"
    by (rule process_event_reads_projection)
  ultimately show ?thesis by simp
qed

lemma mock_decode_category:
  "decodedData mock_env (pubsub_request category_base64) = Inr (Some category_text)"
  by (simp add: decodedData_def pubsub_request_def member_def mock_env_def mock_base64_def
      enabled_base64_def disabled_base64_def no_image_base64_def category_base64_def
      trim_ascii_def is_space_def category_text_def)

lemma mock_parse_category:
  "JSON_parse mock_env category_text = Inr category_event"
  by (simp add: mock_env_def mock_documents_def enabled_text_def disabled_text_def
      no_image_text_def category_text_def)

theorem resource_type_not_gating_witness:
  "own (product_event (VStr ''true'')) ''resource'' = VObj [(''typeId'', VStr ''product'')]
   \<and> own category_event ''resource'' = VObj [(''typeId'', VStr ''category'')]
   \<and> response (post mock_env (pubsub_request enabled_base64))
     = response (post mock_env (pubsub_request category_base64))
   \<and> collaborator_calls (post mock_env (pubsub_request enabled_base64))
     = collaborator_calls (post mock_env (pubsub_request category_base64))"
proof -
  have n1: "enabled_text \<noteq> []" and n2: "category_text \<noteq> []"
    by (simp_all add: enabled_text_def category_text_def)
  have nn: "\<not> nullish (product_event (VStr ''true''))" "\<not> nullish category_event"
    by (simp_all add: product_event_def category_event_def)
  have same: "\<forall>k. k \<noteq> ''resource'' \<longrightarrow>
      own (product_event (VStr ''true'')) k = own category_event k"
    by (simp add: product_event_def category_event_def projection_fields_def)
  have res: "own (product_event (VStr ''true'')) ''resource'' = VObj [(''typeId'', VStr ''product'')]"
    "own category_event ''resource'' = VObj [(''typeId'', VStr ''category'')]"
    by (simp_all add: product_event_def category_event_def projection_fields_def)
  from resource_type_not_gating [OF mock_decode_enabled n1 mock_parse_enabled
      mock_decode_category n2 mock_parse_category nn same] res
  show ?thesis by simp
qed

text \<open>
  C10. \<open>updateProductDescription\<close> first sends the GET for the product id and never sends
  more than one update. When the GET returns a product, whose \<open>version\<close> is read from the
  response body, exactly one POST follows, for the same product id, at that version, with
  the single action \<open>setDescription\<close> whose description has the one locale \<open>en\<close> holding
  the given text; its outcome is the outcome of the operation.
\<close>

theorem update_sets_description_at_fetched_version:
  "take 1 (filter is_request (snd (updateProductDescription_repo apiRoot productId desc)))
     = [Api_get productId]
   \<and> length (filter is_post (snd (updateProductDescription_repo apiRoot productId desc))) \<le> 1
   \<and> (get_execute apiRoot productId = Inr productResponse
        \<and> member (body productResponse) ''version'' = Inr currentVersion
      \<longrightarrow> filter is_request (snd (updateProductDescription_repo apiRoot productId desc))
            = [Api_get productId,
               Api_post productId
                 \<lparr>version = currentVersion,
                  actions = [\<lparr>action = ''setDescription'', description = [(''en'', desc)]\<rparr>]\<rparr>]
          \<and> fst (updateProductDescription_repo apiRoot productId desc)
            = post_execute apiRoot productId
                \<lparr>version = currentVersion,
                 actions = [\<lparr>action = ''setDescription'', description = [(''en'', desc)]\<rparr>]\<rparr>)"
  by (auto simp: updateProductDescription_repo_def Let_def split: sum.splits)

theorem update_sets_description_at_fetched_version_witness:
  "filter is_request (snd (updateProductDescription_repo mockApiRoot (VStr ''product-123'')
                            ''A beautiful product description''))
     = [Api_get (VStr ''product-123''),
        Api_post (VStr ''product-123'')
          \<lparr>version = VNum 1,
           actions = [\<lparr>action = ''setDescription'',
                       description = [(''en'', ''A beautiful product description'')]\<rparr>]\<rparr>]
   \<and> fst (updateProductDescription_repo mockApiRoot (VStr ''product-123'')
            ''A beautiful product description'')
     = Inr \<lparr>body = VObj [(''id'', VStr ''product-123''), (''version'', VNum 2)]\<rparr>"
proof -
  have fetched: "get_execute mockApiRoot (VStr ''product-123'')
        = Inr \<lparr>body = VObj [(''id'', VStr ''product-123''), (''version'', VNum 1)]\<rparr>
      \<and> member (body \<lparr>body = VObj [(''id'', VStr ''product-123''), (''version'', VNum 1)]\<rparr>)
           ''version'' = Inr (VNum 1)"
    by (simp add: mockApiRoot_def member_def)
  from update_sets_description_at_fetched_version
      [of mockApiRoot "VStr ''product-123''" "''A beautiful product description''"
          "\<lparr>body = VObj [(''id'', VStr ''product-123''), (''version'', VNum 1)]\<rparr>" "VNum 1"]
    fetched
  show ?thesis by (simp add: mockApiRoot_def)
qed

text \<open>The two cases of the image-analysis unit test.\<close>

lemma digits_255: "digits 255 = ''255''"
  by code_simp

lemma Math_round_255: "Math_round 255 = 255"
  unfolding Math_round_def by (rule floor_unique) simp_all

lemma image_data_of_mockVisionResponse:
  "image_data_of mockVisionResponse =
     \<lparr>labels = ''shirt, cotton'', objects = ''Clothing'', colors = [''255, 255, 255''],
      detectedText = ''Brand Name'', webEntities = ''Fashion''\<rparr>"
  by (simp add: image_data_of_def mockVisionResponse_def or_else_def color_string_def
      string_of_int_def Math_round_255 digits_255)

lemma image_data_of_missing_annotations:
  "image_data_of missing_annotations =
     \<lparr>labels = ''No labels detected'', objects = ''No objects detected'',
      colors = [''No colors detected''], detectedText = ''No text detected'',
      webEntities = ''No web entities detected''\<rparr>"
  by (simp add: image_data_of_def missing_annotations_def)

lemma image_data_fallbacks:
  "(labelAnnotations r = None \<longrightarrow> labels (image_data_of r) = ''No labels detected'')
   \<and> (localizedObjectAnnotations r = None \<longrightarrow> objects (image_data_of r) = ''No objects detected'')
   \<and> (imagePropertiesAnnotation r = None \<longrightarrow> colors (image_data_of r) = [''No colors detected''])
   \<and> (textAnnotations r = None \<longrightarrow> detectedText (image_data_of r) = ''No text detected'')
   \<and> (webDetection r = None \<longrightarrow> webEntities (image_data_of r) = ''No web entities detected'')"
  by (simp add: image_data_of_def)

lemma image_data_caps:
  "length (colors (image_data_of r)) \<le> 3
   \<and> image_data_of (r\<lparr>webDetection := Some (WebDetection (Some es))\<rparr>)
     = image_data_of (r\<lparr>webDetection := Some (WebDetection (Some (take 5 es)))\<rparr>)"
  by (simp add: image_data_of_def split: option.splits)

text \<open>
  C8 at an annotation in which every detector returned an empty list: labels, objects,
  detected text and web entities get their fallback value, but \<open>colors\<close> stays the empty
  list instead of the fallback \<open>[No colors detected]\<close> (an empty array is truthy, so
  \<open>|| ['No colors detected']\<close> does not apply). The two lemmas before it state what does
  hold: the fallbacks for absent annotations, and the caps of 3 colours and 5 web entities.
\<close>

theorem empty_colour_list_keeps_no_fallback:
  "labels (image_data_of empty_lists_result) = ''No labels detected''
   \<and> objects (image_data_of empty_lists_result) = ''No objects detected''
   \<and> detectedText (image_data_of empty_lists_result) = ''No text detected''
   \<and> webEntities (image_data_of empty_lists_result) = ''No web entities detected''
   \<and> colors (image_data_of empty_lists_result) = []"
  by (simp add: image_data_of_def empty_lists_result_def or_else_def)

end
